theory Spec2Isabelle
  imports Complex_Main
begin

section \<open>Python values, dictionaries and exceptions\<close>

text \<open>
  The fraud detection service is written in Python. A float is a \<^typ>\<open>real\<close>; inputs
  are finite, so NaN does not arise. The penalties and the scores are the exact sums and
  quotients, while the balance check, where rounding decides the branch, is evaluated in
  double precision. Python's unbounded integers are \<^typ>\<open>int\<close>. The \<^verbatim>\<open>print\<close>
  calls of the source write a log line and have no influence on any returned value; they
  are left out.
\<close>

datatype pyval = PyNone | PyInt int | PyFloat real | PyStr string

type_synonym pydict = "string \<rightharpoonup> pyval"

datatype exn =
    AttributeError string
  | KeyError string
  | TypeError string
  | OverflowError string
  | Exception string
  | EstimatorError string

text \<open>
  \<^verbatim>\<open>str(e)\<close>: the message of the exception; for a \<^verbatim>\<open>KeyError\<close> it is the
  \<^verbatim>\<open>repr\<close> of the missing key, which is the key between apostrophes.
  \<open>EstimatorError\<close> stands for whatever the scaler or the classifier raises.
\<close>

definition apostrophe :: char where
  "apostrophe = CHR 0x27"

fun str_exn :: "exn \<Rightarrow> string" where
  "str_exn (AttributeError m) = m"
| "str_exn (KeyError k) = apostrophe # k @ [apostrophe]"
| "str_exn (TypeError m) = m"
| "str_exn (OverflowError m) = m"
| "str_exn (Exception m) = m"
| "str_exn (EstimatorError m) = m"

text \<open>Sequencing: the first exception raised ends the computation.\<close>

definition bind_exn :: "exn + 'a \<Rightarrow> ('a \<Rightarrow> exn + 'b) \<Rightarrow> exn + 'b" where
  "bind_exn r f = (case r of Inl e \<Rightarrow> Inl e | Inr x \<Rightarrow> f x)"

fun type_name :: "pyval \<Rightarrow> string" where
  "type_name PyNone = ''NoneType''"
| "type_name (PyInt _) = ''int''"
| "type_name (PyFloat _) = ''float''"
| "type_name (PyStr _) = ''str''"

text \<open>The number a Python value denotes in an arithmetic operation or comparison, if any.\<close>

fun num_of :: "pyval \<Rightarrow> real option" where
  "num_of (PyInt i) = Some (of_int i)"
| "num_of (PyFloat x) = Some x"
| "num_of PyNone = None"
| "num_of (PyStr _) = None"

definition quoted :: "string \<Rightarrow> string" where
  "quoted s = apostrophe # s @ [apostrophe]"

text \<open>The message of the \<^verbatim>\<open>TypeError\<close> of a comparison \<^verbatim>\<open>v > 1.0\<close> or \<^verbatim>\<open>v < 0\<close>.\<close>

definition not_supported :: "string \<Rightarrow> pyval \<Rightarrow> string \<Rightarrow> exn" where
  "not_supported opr v rhs =
     TypeError (quoted opr @ '' not supported between instances of '' @
       quoted (type_name v) @ '' and '' @ quoted rhs)"

text \<open>The message of the \<^verbatim>\<open>TypeError\<close> of a binary arithmetic operator.\<close>

definition unsupported_operand :: "string \<Rightarrow> string \<Rightarrow> string \<Rightarrow> exn" where
  "unsupported_operand opr lhs rhs =
     TypeError (''unsupported operand type(s) for '' @ opr @ '': '' @
       quoted lhs @ '' and '' @ quoted rhs)"

section \<open>Formatting numbers: the format specifications \<^verbatim>\<open>,.2f\<close> and \<^verbatim>\<open>.1f\<close>\<close>

text \<open>The decimal digits of a non-negative integer.\<close>

function str_int :: "int \<Rightarrow> string" where
  "str_int n =
     (if n < 10 then [''0123456789'' ! nat n]
      else str_int (n div 10) @ [''0123456789'' ! nat (n mod 10)])"
  by pat_completeness auto
termination
  by (relation "measure nat") auto

declare str_int.simps [simp del]

fun group_thousands :: "string \<Rightarrow> string" where
  "group_thousands ds =
     (if length ds \<le> 3 then ds
      else group_thousands (take (length ds - 3) ds) @ '','' @ drop (length ds - 3) ds)"

declare group_thousands.simps [simp del]

definition round_half_even :: "real \<Rightarrow> int" where
  "round_half_even x =
     (let f = \<lfloor>x\<rfloor>; r = x - of_int f
      in if r < 1 / 2 then f
         else if 1 / 2 < r then f + 1
         else if even f then f else f + 1)"

text \<open>
  Fixed point notation with \<open>prec \<ge> 1\<close> digits after the point, the sign of a negative
  number kept, and with or without the thousands separator.
\<close>

definition format_f :: "bool \<Rightarrow> nat \<Rightarrow> real \<Rightarrow> string" where
  "format_f grouping prec x =
     (let n = round_half_even (\<bar>x\<bar> * 10 ^ prec);
          int_part = str_int (n div 10 ^ prec);
          frac_part = str_int (n mod 10 ^ prec);
          frac_padded = replicate (prec - length frac_part) (CHR ''0'') @ frac_part
      in (if x < 0 then ''-'' else '''') @
         (if grouping then group_thousands int_part else int_part) @ ''.'' @ frac_padded)"

fun join :: "string \<Rightarrow> string list \<Rightarrow> string" where
  "join sep [] = ''''"
| "join sep [x] = x"
| "join sep (x # y # ys) = x @ sep @ join sep (y # ys)"

section \<open>Double precision arithmetic\<close>

text \<open>
  A Python float is an IEEE 754 double: a real number with a significand of 53 bits. Each
  arithmetic operation returns the double nearest to the exact result, ties going to the
  even significand. \<open>exponent_of x\<close> is the binary exponent of a positive \<open>x\<close>, the
  integer \<open>e\<close> with \<open>2 ^ e \<le> x < 2 ^ (e + 1)\<close>.
\<close>

function exponent_of :: "real \<Rightarrow> int" where
  "exponent_of x =
     (if x \<le> 0 then 0
      else if x < 1 then exponent_of (2 * x) - 1
      else if 2 \<le> x then exponent_of (x / 2) + 1
      else 0)"
  by pat_completeness auto
termination
proof (relation "measure (\<lambda>x. nat \<bar>\<lfloor>log 2 x\<rfloor>\<bar>)")
  show "wf (measure (\<lambda>x. nat \<bar>\<lfloor>log 2 x\<rfloor>\<bar>))" by simp
next
  fix x :: real
  assume "\<not> x \<le> 0" and "x < 1"
  then have "log 2 (2 * x) = log 2 x + 1" and neg: "log 2 x < 0"
    by (simp_all add: log_mult)
  then have "\<lfloor>log 2 (2 * x)\<rfloor> = \<lfloor>log 2 x\<rfloor> + 1" by simp
  moreover from neg have "\<lfloor>log 2 x\<rfloor> < 0" by (simp add: floor_less_iff)
  ultimately have "nat \<bar>\<lfloor>log 2 (2 * x)\<rfloor>\<bar> < nat \<bar>\<lfloor>log 2 x\<rfloor>\<bar>" by linarith
  then show "(2 * x, x) \<in> measure (\<lambda>x. nat \<bar>\<lfloor>log 2 x\<rfloor>\<bar>)" by simp
next
  fix x :: real
  assume "\<not> x \<le> 0" and "\<not> x < 1" and "2 \<le> x"
  then have "log 2 (x / 2) = log 2 x - 1" and pos: "1 \<le> log 2 x"
    by (simp_all add: log_divide)
  then have "\<lfloor>log 2 (x / 2)\<rfloor> = \<lfloor>log 2 x\<rfloor> - 1" by simp
  moreover from pos have "1 \<le> \<lfloor>log 2 x\<rfloor>" by (simp add: le_floor_iff)
  ultimately have "nat \<bar>\<lfloor>log 2 (x / 2)\<rfloor>\<bar> < nat \<bar>\<lfloor>log 2 x\<rfloor>\<bar>" by linarith
  then show "(x / 2, x) \<in> measure (\<lambda>x. nat \<bar>\<lfloor>log 2 x\<rfloor>\<bar>)" by simp
qed

declare exponent_of.simps [simp del]

definition pow2 :: "int \<Rightarrow> real" where
  "pow2 e = (if 0 \<le> e then 2 ^ nat e else 1 / 2 ^ nat (- e))"

text \<open>
  Rounding to 53 significant bits, with no bound on the exponent. A result of magnitude
  \<open>2 ^ 1024\<close> or more is an overflow, which IEEE arithmetic turns into an infinity. Below
  the normal range the doubles are the multiples of \<open>2 ^ -1074\<close>; sums and differences
  of doubles that small are exact, and they are the only results that small below.
\<close>

definition round_double :: "real \<Rightarrow> real" where
  "round_double x =
     (if x = 0 then 0
      else (let e = exponent_of \<bar>x\<bar> - 52;
                m = round_half_even (\<bar>x\<bar> / pow2 e)
            in sgn x * (of_int m * pow2 e)))"

definition overflows :: "real \<Rightarrow> bool" where
  "overflows x \<longleftrightarrow> 2 ^ 1024 \<le> \<bar>x\<bar>"

text \<open>
  The numbers of an arithmetic expression: an integer, a finite double, or an infinity
  (its sign plays no role below, where only the absolute value is compared).
\<close>

datatype number = NInt int | NFloat real | NInf

fun number_of :: "pyval \<Rightarrow> number option" where
  "number_of (PyInt i) = Some (NInt i)"
| "number_of (PyFloat x) = Some (NFloat x)"
| "number_of PyNone = None"
| "number_of (PyStr _) = None"

text \<open>The result of a float operation whose exact value is \<open>x\<close>.\<close>

definition float_result :: "real \<Rightarrow> number" where
  "float_result x = (if overflows (round_double x) then NInf else NFloat (round_double x))"

text \<open>
  The conversion of an operand to float in mixed arithmetic: an integer goes to the
  nearest double, and one beyond the range of the doubles raises.
\<close>

fun to_float :: "number \<Rightarrow> exn + number" where
  "to_float (NInt i) =
     (if overflows (round_double (of_int i))
      then Inl (OverflowError ''int too large to convert to float'')
      else Inr (NFloat (round_double (of_int i))))"
| "to_float (NFloat x) = Inr (NFloat x)"
| "to_float NInf = Inr NInf"

text \<open>
  \<^verbatim>\<open>a - b\<close>, where \<open>b\<close> is finite: exact on two integers, a float operation otherwise.
  An infinity minus a finite number is that infinity.
\<close>

fun num_sub :: "number \<Rightarrow> number \<Rightarrow> exn + number" where
  "num_sub (NInt i) (NInt j) = Inr (NInt (i - j))"
| "num_sub a b =
     bind_exn (to_float a) (\<lambda>x.
     bind_exn (to_float b) (\<lambda>y.
       (case (x, y) of
          (NFloat u, NFloat v) \<Rightarrow> Inr (float_result (u - v))
        | _ \<Rightarrow> Inr NInf)))"

fun num_abs :: "number \<Rightarrow> number" where
  "num_abs (NInt i) = NInt \<bar>i\<bar>"
| "num_abs (NFloat x) = NFloat \<bar>x\<bar>"
| "num_abs NInf = NInf"

text \<open>The exact value of a finite number; comparisons of integers and floats are exact.\<close>

fun num_value :: "number \<Rightarrow> real" where
  "num_value (NInt i) = of_int i"
| "num_value (NFloat x) = x"
| "num_value NInf = 0"

text \<open>\<^verbatim>\<open>max(a, 1.0)\<close> is \<open>1.0\<close> when \<^verbatim>\<open>1.0 > a\<close> and the first argument otherwise.\<close>

definition num_max_one :: "number \<Rightarrow> number" where
  "num_max_one a = (if 1.0 > num_value a then NFloat 1.0 else a)"

text \<open>
  \<^verbatim>\<open>0.01 * m\<close> for a finite \<open>m \<ge> 1\<close>: the literal is the double nearest to one
  hundredth, and the product is smaller than \<open>m\<close>, so it does not overflow.
\<close>

definition num_mul_hundredth :: "number \<Rightarrow> exn + real" where
  "num_mul_hundredth m =
     bind_exn (to_float m) (\<lambda>x. Inr (round_double (round_double 0.01 * num_value x)))"

text \<open>\<^verbatim>\<open>a > b\<close> for a finite double \<open>b\<close>.\<close>

fun num_gt :: "number \<Rightarrow> real \<Rightarrow> bool" where
  "num_gt NInf b = True"
| "num_gt a b = (num_value a > b)"

section \<open>The reference statistics of \<^verbatim>\<open>app/utils/preprocessing.py\<close>\<close>

text \<open>
  One entry of \<^verbatim>\<open>_feature_stats\<close>. The 99th percentile is read with
  \<^verbatim>\<open>stats.get('q99', stats['max'] * 0.9)\<close>, so it is the one key that may be absent.
\<close>

record stats =
  mean :: real
  std :: real
  min_stat :: real
  max_stat :: real
  q25 :: real
  q50 :: real
  q75 :: real
  q99 :: "real option"

definition amount_stats :: stats where
  "amount_stats = \<lparr>mean = 179553, std = 603858, min_stat = 0, max_stat = 92445516,
     q25 = 13.55, q50 = 74.87, q75 = 208, q99 = Some 1111864\<rparr>"

definition oldbalanceOrg_stats :: stats where
  "oldbalanceOrg_stats = \<lparr>mean = 835641, std = 2888242, min_stat = 0, max_stat = 59585040,
     q25 = 0, q50 = 14208, q75 = 107360, q99 = Some 8940000\<rparr>"

definition newbalanceOrig_stats :: stats where
  "newbalanceOrig_stats = \<lparr>mean = 855113, std = 2908293, min_stat = 0, max_stat = 49585040,
     q25 = 0, q50 = 0, q75 = 144587, q99 = Some 9253364\<rparr>"

definition oldbalanceDest_stats :: stats where
  "oldbalanceDest_stats = \<lparr>mean = 1100701, std = 3399180, min_stat = 0, max_stat = 356015089,
     q25 = 0, q50 = 0, q75 = 324784, q99 = Some 14239246\<rparr>"

definition newbalanceDest_stats :: stats where
  "newbalanceDest_stats = \<lparr>mean = 1224996, std = 3564366, min_stat = 0, max_stat = 356179278,
     q25 = 0, q50 = 0, q75 = 417334, q99 = Some 14928629\<rparr>"

definition feature_stats :: "string \<rightharpoonup> stats" where
  "feature_stats feature =
     (if feature = ''amount'' then Some amount_stats
      else if feature = ''oldbalanceOrg'' then Some oldbalanceOrg_stats
      else if feature = ''newbalanceOrig'' then Some newbalanceOrig_stats
      else if feature = ''oldbalanceDest'' then Some oldbalanceDest_stats
      else if feature = ''newbalanceDest'' then Some newbalanceDest_stats
      else None)"

definition q99_ref :: "stats \<Rightarrow> real" where
  "q99_ref st = (case q99 st of Some q \<Rightarrow> q | None \<Rightarrow> max_stat st * 0.9)"

section \<open>The anomaly detector \<^verbatim>\<open>is_anomalous\<close>\<close>

definition numeric_features :: "string list" where
  "numeric_features =
     [''amount'', ''oldbalanceOrg'', ''newbalanceOrig'', ''oldbalanceDest'', ''newbalanceDest'']"

text \<open>The three checks of the loop body on a numeric value, in the order of the source.\<close>

definition check_q99 :: "string \<Rightarrow> stats \<Rightarrow> real \<Rightarrow> real \<times> string list \<Rightarrow> real \<times> string list" where
  "check_q99 feature st v acc =
     (if v > q99_ref st then
        (let ratio = v / max (q99_ref st) 1.0
         in if ratio > 1.5 then
              (fst acc + min (ratio * 2) 20.0,
               snd acc @ [feature @ '' ('' @ format_f True 2 v @ '') is '' @
                          format_f False 1 ratio @ ''x higher than typical values''])
            else acc)
      else acc)"

definition check_max :: "string \<Rightarrow> stats \<Rightarrow> real \<Rightarrow> real \<times> string list \<Rightarrow> real \<times> string list" where
  "check_max feature st v acc =
     (if v > max_stat st then
        (let z_score = (v - mean st) / max (std st) 1.0
         in (fst acc + min \<bar>z_score\<bar> 30.0,
             snd acc @ [feature @ '' ('' @ format_f True 2 v @
                        '') exceeds maximum observed value of '' @
                        format_f True 2 (max_stat st)]))
      else acc)"

definition check_negative :: "string \<Rightarrow> real \<Rightarrow> real \<times> string list \<Rightarrow> real \<times> string list" where
  "check_negative feature v acc =
     (if v < 0 then
        (fst acc + 10.0, snd acc @ [feature @ '' ('' @ format_f True 2 v @ '') is negative''])
      else acc)"

text \<open>
  One iteration of the loop over the numeric features. A feature that is not a key of the
  transaction is skipped; a value that is no number raises at the first comparison.
\<close>

definition check_feature :: "pydict \<Rightarrow> string \<Rightarrow> real \<times> string list \<Rightarrow> exn + real \<times> string list" where
  "check_feature transaction feature acc =
     (case transaction feature of
        None \<Rightarrow> Inr acc
      | Some val \<Rightarrow>
          (case feature_stats feature of
             None \<Rightarrow> Inr acc
           | Some st \<Rightarrow>
               (case num_of val of
                  None \<Rightarrow> Inl (not_supported ''>'' val ''float'')
                | Some v \<Rightarrow>
                    Inr (check_negative feature v
                          (check_max feature st v (check_q99 feature st v acc))))))"

fun check_features :: "pydict \<Rightarrow> string list \<Rightarrow> real \<times> string list \<Rightarrow> exn + real \<times> string list" where
  "check_features transaction [] acc = Inr acc"
| "check_features transaction (feature # features) acc =
     (case check_feature transaction feature acc of
        Inl e \<Rightarrow> Inl e
      | Inr acc' \<Rightarrow> check_features transaction features acc')"

definition balance_reason :: string where
  "balance_reason = ''Balance change doesn'' @ [apostrophe] @ ''t match transaction amount''"

text \<open>
  The check for logical inconsistencies. \<^verbatim>\<open>transaction.get('amount', 0)\<close> is the integer
  0 when the key is absent. Here rounding decides the branch for ordinary inputs, so the
  expression is evaluated as Python does: the left side first, each operation in double
  precision. The three values have passed the comparisons of the loop, so they are
  numbers when this point is reached.
\<close>

definition check_balance :: "pydict \<Rightarrow> real \<times> string list \<Rightarrow> exn + real \<times> string list" where
  "check_balance transaction acc =
     (case transaction ''oldbalanceOrg'' of
        None \<Rightarrow> Inr acc
      | Some old_val \<Rightarrow>
          (case transaction ''newbalanceOrig'' of
             None \<Rightarrow> Inr acc
           | Some new_val \<Rightarrow>
               (let amount_val = (case transaction ''amount'' of Some a \<Rightarrow> a | None \<Rightarrow> PyInt 0)
                in case (number_of old_val, number_of new_val, number_of amount_val) of
                     (Some old_balance, Some new_balance, Some amount) \<Rightarrow>
                       bind_exn (num_sub old_balance new_balance) (\<lambda>change.
                       bind_exn (num_sub change amount) (\<lambda>difference.
                       bind_exn (num_mul_hundredth (num_max_one amount)) (\<lambda>tolerance.
                         if num_gt (num_abs difference) tolerance
                         then Inr (fst acc + 3.0, snd acc @ [balance_reason])
                         else Inr acc)))
                   | (Some old_balance, Some new_balance, None) \<Rightarrow>
                       Inl (unsupported_operand ''-'' ''float'' (type_name amount_val))
                   | _ \<Rightarrow>
                       Inl (unsupported_operand ''-'' (type_name old_val) (type_name new_val)))))"

definition is_anomalous :: "pydict \<Rightarrow> exn + bool \<times> real \<times> string" where
  "is_anomalous transaction =
     (case check_features transaction numeric_features (0.0, []) of
        Inl e \<Rightarrow> Inl e
      | Inr acc \<Rightarrow>
          (case check_balance transaction acc of
             Inl e \<Rightarrow> Inl e
           | Inr (anomaly_score, reasons) \<Rightarrow>
               Inr (anomaly_score > 5.0, anomaly_score,
                    if reasons \<noteq> [] then join ''; '' reasons else ''No anomalies detected'')))"

section \<open>The feature encoder \<^verbatim>\<open>preprocess_transaction\<close>\<close>

text \<open>\<^verbatim>\<open>transaction[key]\<close> raises \<^verbatim>\<open>KeyError\<close> on a missing key.\<close>

definition getitem :: "pydict \<Rightarrow> string \<Rightarrow> exn + pyval" where
  "getitem d k = (case d k of None \<Rightarrow> Inl (KeyError k) | Some v \<Rightarrow> Inr v)"

text \<open>
  \<^verbatim>\<open>v % n\<close> and \<^verbatim>\<open>v // n\<close> for an integer \<open>n\<close>: both round towards minus infinity,
  as \<open>mod\<close> and \<open>div\<close> on \<^typ>\<open>int\<close> do. On a string, \<^verbatim>\<open>%\<close> is string formatting; the
  message below is the one of a string without a conversion specifier.
\<close>

fun py_mod :: "pyval \<Rightarrow> int \<Rightarrow> exn + pyval" where
  "py_mod (PyInt i) n = Inr (PyInt (i mod n))"
| "py_mod (PyFloat x) n = Inr (PyFloat (x - of_int n * of_int \<lfloor>x / of_int n\<rfloor>))"
| "py_mod PyNone n = Inl (unsupported_operand ''%'' ''NoneType'' ''int'')"
| "py_mod (PyStr s) n = Inl (TypeError ''not all arguments converted during string formatting'')"

fun py_floordiv :: "pyval \<Rightarrow> int \<Rightarrow> exn + pyval" where
  "py_floordiv (PyInt i) n = Inr (PyInt (i div n))"
| "py_floordiv (PyFloat x) n = Inr (PyFloat (of_int \<lfloor>x / of_int n\<rfloor>))"
| "py_floordiv PyNone n = Inl (unsupported_operand ''//'' ''NoneType'' ''int'')"
| "py_floordiv (PyStr s) n = Inl (unsupported_operand ''//'' ''str'' ''int'')"

definition preprocess_transaction :: "pydict \<Rightarrow> exn + pyval list" where
  "preprocess_transaction transaction =
     bind_exn (getitem transaction ''step'') (\<lambda>step0.
     bind_exn (py_mod step0 24) (\<lambda>hour.
     bind_exn (py_floordiv step0 24) (\<lambda>day.
     bind_exn (getitem transaction ''step'') (\<lambda>f_step.
     bind_exn (getitem transaction ''amount'') (\<lambda>f_amount.
     bind_exn (getitem transaction ''oldbalanceOrg'') (\<lambda>f_oldbalanceOrg.
     bind_exn (getitem transaction ''newbalanceOrig'') (\<lambda>f_newbalanceOrig.
     bind_exn (getitem transaction ''oldbalanceDest'') (\<lambda>f_oldbalanceDest.
     bind_exn (getitem transaction ''newbalanceDest'') (\<lambda>f_newbalanceDest.
       Inr [f_step, f_amount, f_oldbalanceOrg, f_newbalanceOrig, f_oldbalanceDest,
            f_newbalanceDest, hour, day,
            (case transaction ''isFlaggedFraud'' of Some v \<Rightarrow> v | None \<Rightarrow> PyInt 0)])))))))))"

section \<open>The request schema of \<^verbatim>\<open>app/schemas/transaction.py\<close>\<close>

datatype TransactionType = PAYMENT | TRANSFER | CASH_OUT | DEBIT | CASH_IN

fun TransactionType_value :: "TransactionType \<Rightarrow> string" where
  "TransactionType_value PAYMENT = ''PAYMENT''"
| "TransactionType_value TRANSFER = ''TRANSFER''"
| "TransactionType_value CASH_OUT = ''CASH_OUT''"
| "TransactionType_value DEBIT = ''DEBIT''"
| "TransactionType_value CASH_IN = ''CASH_IN''"

record transaction =
  transaction_id :: "string option"
  step :: int
  amount :: real
  oldbalanceOrg :: real
  newbalanceOrig :: real
  oldbalanceDest :: real
  newbalanceDest :: real
  type :: TransactionType
  isFlaggedFraud :: "int option"

text \<open>The field constraints of the schema (\<^verbatim>\<open>ge=0\<close>, \<^verbatim>\<open>gt=0\<close>, \<^verbatim>\<open>le=1\<close>).\<close>

definition valid_transaction :: "transaction \<Rightarrow> bool" where
  "valid_transaction t \<longleftrightarrow>
     0 \<le> step t \<and> 0 < amount t \<and> 0 \<le> oldbalanceOrg t \<and> 0 \<le> newbalanceOrig t \<and>
     0 \<le> oldbalanceDest t \<and> 0 \<le> newbalanceDest t \<and>
     (case isFlaggedFraud t of None \<Rightarrow> True | Some b \<Rightarrow> 0 \<le> b \<and> b \<le> 1)"

text \<open>
  The \<^verbatim>\<open>dict()\<close> method of the schema class: every field is a key. The transaction type
  is an enumeration member that is also a string; it is given by its value.
\<close>

definition transaction_dict :: "transaction \<Rightarrow> pydict" where
  "transaction_dict t =
     [''transaction_id'' \<mapsto> (case transaction_id t of None \<Rightarrow> PyNone | Some s \<Rightarrow> PyStr s),
      ''step'' \<mapsto> PyInt (step t),
      ''amount'' \<mapsto> PyFloat (amount t),
      ''oldbalanceOrg'' \<mapsto> PyFloat (oldbalanceOrg t),
      ''newbalanceOrig'' \<mapsto> PyFloat (newbalanceOrig t),
      ''oldbalanceDest'' \<mapsto> PyFloat (oldbalanceDest t),
      ''newbalanceDest'' \<mapsto> PyFloat (newbalanceDest t),
      ''type'' \<mapsto> PyStr (TransactionType_value (type t)),
      ''isFlaggedFraud'' \<mapsto> (case isFlaggedFraud t of None \<Rightarrow> PyNone | Some b \<Rightarrow> PyInt b)]"

text \<open>
  \<^verbatim>\<open>predict\<close> has an untyped parameter and \<^verbatim>\<open>batch_predict\<close> announces a list of
  plain dictionaries: the argument is either a \<^verbatim>\<open>Transaction\<close>, or an object of some
  other type (given by the name of its type) that has no attribute \<^verbatim>\<open>dict\<close>.
\<close>

datatype pyobject = TransactionObj transaction | OtherObj string

fun dict_method :: "pyobject \<Rightarrow> exn + pydict" where
  "dict_method (TransactionObj t) = Inr (transaction_dict t)"
| "dict_method (OtherObj ty) =
     Inl (AttributeError (quoted ty @ '' object has no attribute '' @ quoted ''dict''))"

section \<open>The service of \<^verbatim>\<open>app/services/prediction.py\<close>\<close>

text \<open>
  The scaler and the classifier are external objects. An object that is not
  \<^verbatim>\<open>None\<close> is given by what the one call made on it does:
  \<^verbatim>\<open>scaler.transform([processed_data])\<close> returns the scaled row or raises, and
  \<^verbatim>\<open>model.predict_proba(scaled_data)[0][1]\<close> returns a probability or raises.
\<close>

type_synonym scaler_obj = "pyval list \<Rightarrow> exn + real list"
type_synonym model_obj = "real list \<Rightarrow> exn + real"

record FraudDetectionService =
  model :: "model_obj option"
  scaler :: "scaler_obj option"

record prediction =
  fraud_probability :: real
  is_fraud :: bool
  confidence_score :: real
  is_anomalous_field :: bool
  anomaly_reason :: string



definition base_confidence :: "real \<Rightarrow> real" where
  "base_confidence proba = \<bar>proba - 0.5\<bar> * 2"

text \<open>The inner \<^verbatim>\<open>try\<close> of \<^verbatim>\<open>predict\<close>: scaling and scoring, with the fallback 0.1.\<close>

definition raw_probability :: "model_obj \<Rightarrow> scaler_obj \<Rightarrow> pyval list \<Rightarrow> real" where
  "raw_probability m sc processed_data =
     (case sc processed_data of
        Inl e \<Rightarrow> 0.1
      | Inr scaled_data \<Rightarrow> (case m scaled_data of Inl e \<Rightarrow> 0.1 | Inr proba \<Rightarrow> proba))"

text \<open>The result returned when the model or the scaler is \<^verbatim>\<open>None\<close>.\<close>

definition default_prediction :: "bool \<Rightarrow> string \<Rightarrow> prediction" where
  "default_prediction is_anomaly reason =
     \<lparr>fraud_probability = 0.1, is_fraud = False, confidence_score = 0.8,
      is_anomalous_field = is_anomaly,
      anomaly_reason = (if is_anomaly then reason else [])\<rparr>"

text \<open>The confidence adjustment and the result of the normal path.\<close>

definition scored_prediction :: "real \<Rightarrow> bool \<Rightarrow> real \<Rightarrow> string \<Rightarrow> prediction" where
  "scored_prediction proba is_anomaly anomaly_score reason =
     (let confidence = base_confidence proba;
          confidence =
            (if is_anomaly
             then max 0.1 (confidence * (1.0 - min (anomaly_score / 50.0) 0.9))
             else confidence)
      in \<lparr>fraud_probability = proba, is_fraud = (proba > 0.5),
          confidence_score = confidence,
          is_anomalous_field = is_anomaly,
          anomaly_reason = (if is_anomaly then reason else [])\<rparr>)"

text \<open>The body of the outer \<^verbatim>\<open>try\<close> of \<^verbatim>\<open>predict\<close>.\<close>

definition predict_body :: "FraudDetectionService \<Rightarrow> pyobject \<Rightarrow> exn + prediction" where
  "predict_body self transaction =
     bind_exn (dict_method transaction) (\<lambda>transaction_dict.
     bind_exn (is_anomalous transaction_dict) (\<lambda>(is_anomaly, anomaly_score, reason).
     bind_exn (preprocess_transaction transaction_dict) (\<lambda>processed_data.
       (case (model self, scaler self) of
          (Some m, Some sc) \<Rightarrow>
            Inr (scored_prediction (raw_probability m sc processed_data)
                   is_anomaly anomaly_score reason)
        | _ \<Rightarrow> Inr (default_prediction is_anomaly reason)))))"

text \<open>The handler of the outer \<^verbatim>\<open>try\<close>.\<close>

definition last_resort :: "exn \<Rightarrow> prediction" where
  "last_resort e =
     \<lparr>fraud_probability = 0.1, is_fraud = False, confidence_score = 0.8,
      is_anomalous_field = False,
      anomaly_reason = ''Error during prediction: '' @ str_exn e\<rparr>"

definition predict :: "FraudDetectionService \<Rightarrow> pyobject \<Rightarrow> prediction" where
  "predict self transaction =
     (case predict_body self transaction of Inr result \<Rightarrow> result | Inl e \<Rightarrow> last_resort e)"

text \<open>
  The argument of \<^verbatim>\<open>batch_predict\<close>: a list, or an object of some other type (given by
  the name of its type) over which the \<^verbatim>\<open>for\<close> statement cannot iterate.
\<close>

datatype pyiterable = PyList "pyobject list" | NotIterable string

text \<open>
  The body of the loop converts each field with \<^verbatim>\<open>float\<close>, \<^verbatim>\<open>bool\<close> or \<^verbatim>\<open>str\<close>, which
  return a value of these types as it is.
\<close>

definition native :: "prediction \<Rightarrow> prediction" where
  "native result =
     \<lparr>fraud_probability = fraud_probability result, is_fraud = is_fraud result,
      confidence_score = confidence_score result,
      is_anomalous_field = is_anomalous_field result,
      anomaly_reason = anomaly_reason result\<rparr>"

fun batch_loop :: "FraudDetectionService \<Rightarrow> pyobject list \<Rightarrow> prediction list \<Rightarrow> prediction list" where
  "batch_loop self [] results = results"
| "batch_loop self (transaction # transactions) results =
     batch_loop self transactions (results @ [native (predict self transaction)])"

fun batch_predict :: "FraudDetectionService \<Rightarrow> pyiterable \<Rightarrow> exn + prediction list" where
  "batch_predict self (PyList transactions) = Inr (batch_loop self transactions [])"
| "batch_predict self (NotIterable ty) =
     Inl (Exception (''Error in batch prediction: '' @
            str_exn (TypeError (quoted ty @ '' object is not iterable''))))"

section \<open>The specification, in its own words\<close>

text \<open>
  The three penalties of a numeric field as the specification words them: the ratio of the
  value to the 99th percentile reference (0.9 times the maximum when no 99th percentile is
  recorded) above 1.5, the value above the recorded maximum, and a negative value.
\<close>

definition spec_q99_penalty :: "stats \<Rightarrow> real \<Rightarrow> real" where
  "spec_q99_penalty st v =
     (let ratio = v / q99_ref st in if ratio > 1.5 then min (ratio * 2) 20.0 else 0)"

definition spec_max_penalty :: "stats \<Rightarrow> real \<Rightarrow> real" where
  "spec_max_penalty st v =
     (if v > max_stat st then min \<bar>(v - mean st) / max (std st) 1.0\<bar> 30.0 else 0)"

definition spec_negative_penalty :: "real \<Rightarrow> real" where
  "spec_negative_penalty v = (if v < 0 then 10.0 else 0)"

definition spec_field_penalty :: "stats \<Rightarrow> real \<Rightarrow> real" where
  "spec_field_penalty st v =
     spec_q99_penalty st v + spec_max_penalty st v + spec_negative_penalty v"

text \<open>
  The reasons of a numeric field, one for each penalty that is triggered, in the order of
  the three checks.
\<close>

definition spec_field_reasons :: "string \<Rightarrow> stats \<Rightarrow> real \<Rightarrow> string list" where
  "spec_field_reasons feature st v =
     (if v / q99_ref st > 1.5
      then [feature @ '' ('' @ format_f True 2 v @ '') is '' @
            format_f False 1 (v / q99_ref st) @ ''x higher than typical values'']
      else []) @
     (if v > max_stat st
      then [feature @ '' ('' @ format_f True 2 v @ '') exceeds maximum observed value of '' @
            format_f True 2 (max_stat st)]
      else []) @
     (if v < 0 then [feature @ '' ('' @ format_f True 2 v @ '') is negative''] else [])"


text \<open>
  The same formula in double precision: every difference and the product are rounded, the
  literal 0.01 is the double nearest to one hundredth, and a difference that overflows is
  infinite and so exceeds the tolerance.
\<close>

definition balance_mismatch :: "transaction \<Rightarrow> bool" where
  "balance_mismatch t \<longleftrightarrow>
     (let change = round_double (oldbalanceOrg t - newbalanceOrig t);
          difference = round_double (change - amount t);
          tolerance = round_double (round_double 0.01 * max (amount t) 1.0)
      in overflows change \<or> overflows difference \<or> \<bar>difference\<bar> > tolerance)"

text \<open>
  The penalties and the reasons of the five numeric fields of a transaction, in the order
  of iteration, then the anomaly score and the list of all reasons.
\<close>

definition spec_fields_penalty :: "transaction \<Rightarrow> real" where
  "spec_fields_penalty t =
     spec_field_penalty amount_stats (amount t) +
     spec_field_penalty oldbalanceOrg_stats (oldbalanceOrg t) +
     spec_field_penalty newbalanceOrig_stats (newbalanceOrig t) +
     spec_field_penalty oldbalanceDest_stats (oldbalanceDest t) +
     spec_field_penalty newbalanceDest_stats (newbalanceDest t)"

definition spec_fields_reasons :: "transaction \<Rightarrow> string list" where
  "spec_fields_reasons t =
     spec_field_reasons ''amount'' amount_stats (amount t) @
     spec_field_reasons ''oldbalanceOrg'' oldbalanceOrg_stats (oldbalanceOrg t) @
     spec_field_reasons ''newbalanceOrig'' newbalanceOrig_stats (newbalanceOrig t) @
     spec_field_reasons ''oldbalanceDest'' oldbalanceDest_stats (oldbalanceDest t) @
     spec_field_reasons ''newbalanceDest'' newbalanceDest_stats (newbalanceDest t)"

definition spec_score :: "transaction \<Rightarrow> real" where
  "spec_score t = spec_fields_penalty t + (if balance_mismatch t then 3.0 else 0)"

definition spec_reasons :: "transaction \<Rightarrow> string list" where
  "spec_reasons t = spec_fields_reasons t @ (if balance_mismatch t then [balance_reason] else [])"

definition spec_reason :: "transaction \<Rightarrow> string" where
  "spec_reason t =
     (if spec_reasons t = [] then ''No anomalies detected'' else join ''; '' (spec_reasons t))"

text \<open>
  The feature vector of a transaction: the step, the amount, the four balances, the hour
  \<open>step mod 24\<close>, the day \<open>step div 24\<close> and the system flag.
\<close>

definition spec_encode :: "transaction \<Rightarrow> pyval list" where
  "spec_encode t =
     [PyInt (step t), PyFloat (amount t), PyFloat (oldbalanceOrg t), PyFloat (newbalanceOrig t),
      PyFloat (oldbalanceDest t), PyFloat (newbalanceDest t),
      PyInt (step t mod 24), PyInt (step t div 24),
      (case isFlaggedFraud t of None \<Rightarrow> PyNone | Some b \<Rightarrow> PyInt b)]"

text \<open>
  The confidence adjuster: the base confidence \<open>|p - 0.5| * 2\<close>, damped and floored at
  0.1 when the transaction is anomalous.
\<close>

definition spec_confidence :: "real \<Rightarrow> bool \<Rightarrow> real \<Rightarrow> real" where
  "spec_confidence p anomalous anomaly_score =
     (if anomalous
      then max 0.1 (\<bar>p - 0.5\<bar> * 2 * (1 - min (anomaly_score / 50.0) 0.9))
      else \<bar>p - 0.5\<bar> * 2)"

text \<open>
  A value lies between the 75th and the 99th percentile of its reference statistics.
\<close>

definition within_q75_q99 :: "stats \<Rightarrow> real \<Rightarrow> bool" where
  "within_q75_q99 st v \<longleftrightarrow> q75 st \<le> v \<and> v \<le> q99_ref st"

text \<open>
  Sample inputs: a transaction with every field in range and a consistent balance change,
  one whose amount is far above the recorded maximum, and one whose balance change does
  not match its amount.
\<close>

definition in_range_transaction :: transaction where
  "in_range_transaction =
     \<lparr>transaction_id = None, step = 1, amount = 500000, oldbalanceOrg = 1000000,
      newbalanceOrig = 500000, oldbalanceDest = 400000, newbalanceDest = 900000,
      type = PAYMENT, isFlaggedFraud = Some 0\<rparr>"

definition huge_amount_transaction :: transaction where
  "huge_amount_transaction =
     \<lparr>transaction_id = None, step = 1, amount = 200000000, oldbalanceOrg = 170136,
      newbalanceOrig = 160296.375, oldbalanceDest = 0, newbalanceDest = 0,
      type = TRANSFER, isFlaggedFraud = Some 0\<rparr>"

definition mismatch_transaction :: transaction where
  "mismatch_transaction =
     \<lparr>transaction_id = None, step = 1, amount = 50, oldbalanceOrg = 1000,
      newbalanceOrig = 900, oldbalanceDest = 0, newbalanceDest = 0,
      type = PAYMENT, isFlaggedFraud = Some 0\<rparr>"

text \<open>
  A transaction with every field in range whose balance change is within one percent of
  the amount in exact arithmetic and beyond it in double precision. The new balance is
  the double nearest to 269560.46.
\<close>

definition rounding_transaction :: transaction where
  "rounding_transaction =
     \<lparr>transaction_id = None, step = 1, amount = 803954, oldbalanceOrg = 1081554,
      newbalanceOrig = 4631013439978865 / 17179869184, oldbalanceDest = 400000,
      newbalanceDest = 900000, type = PAYMENT, isFlaggedFraud = Some 0\<rparr>"


definition unfitted_model :: model_obj where
  "unfitted_model scaled_data =
     Inl (EstimatorError ''This RandomForestClassifier instance is not fitted yet.'')"

definition stub_scaler :: scaler_obj where
  "stub_scaler processed_data = Inr []"

definition stub_model :: "real \<Rightarrow> model_obj" where
  "stub_model proba scaled_data = Inr proba"

definition stub_service :: "real \<Rightarrow> FraudDetectionService" where
  "stub_service proba = \<lparr>model = Some (stub_model proba), scaler = Some stub_scaler\<rparr>"

definition unloaded_service :: FraudDetectionService where
  "unloaded_service = \<lparr>model = None, scaler = None\<rparr>"

section \<open>Properties\<close>

text \<open>
  The keys of the dictionary of a \<^verbatim>\<open>Transaction\<close> and the entries of the bundled
  statistics.
\<close>

lemma transaction_dict_lookup:
  "transaction_dict t ''amount'' = Some (PyFloat (amount t))"
  "transaction_dict t ''oldbalanceOrg'' = Some (PyFloat (oldbalanceOrg t))"
  "transaction_dict t ''newbalanceOrig'' = Some (PyFloat (newbalanceOrig t))"
  "transaction_dict t ''oldbalanceDest'' = Some (PyFloat (oldbalanceDest t))"
  "transaction_dict t ''newbalanceDest'' = Some (PyFloat (newbalanceDest t))"
  "transaction_dict t ''step'' = Some (PyInt (step t))"
  "transaction_dict t ''isFlaggedFraud'' =
     Some (case isFlaggedFraud t of None \<Rightarrow> PyNone | Some b \<Rightarrow> PyInt b)"
  by (simp_all add: transaction_dict_def)

lemma feature_stats_lookup:
  "feature_stats ''amount'' = Some amount_stats"
  "feature_stats ''oldbalanceOrg'' = Some oldbalanceOrg_stats"
  "feature_stats ''newbalanceOrig'' = Some newbalanceOrig_stats"
  "feature_stats ''oldbalanceDest'' = Some oldbalanceDest_stats"
  "feature_stats ''newbalanceDest'' = Some newbalanceDest_stats"
  by (simp_all add: feature_stats_def)

lemma q99_ref_bundled:
  "q99_ref amount_stats = 1111864"
  "q99_ref oldbalanceOrg_stats = 8940000"
  "q99_ref newbalanceOrig_stats = 9253364"
  "q99_ref oldbalanceDest_stats = 14239246"
  "q99_ref newbalanceDest_stats = 14928629"
  by (simp_all add: q99_ref_def amount_stats_def oldbalanceOrg_stats_def
      newbalanceOrig_stats_def oldbalanceDest_stats_def newbalanceDest_stats_def)

text \<open>
  The bundled 99th percentiles are all at least 1, so that \<^verbatim>\<open>max(q99, 1.0)\<close> is the
  percentile itself and the guard \<^verbatim>\<open>value > q99\<close> follows from \<^verbatim>\<open>ratio > 1.5\<close>.
\<close>

lemma ratio_guard:
  fixes v q :: real
  assumes "1 \<le> q" and "1.5 < v / q"
  shows "q < v"
proof -
  from assms have "0 < q" by simp
  with assms have "1.5 * q < v" by (simp add: pos_less_divide_eq)
  with \<open>0 < q\<close> show ?thesis by simp
qed

lemma check_q99_spec:
  assumes "1 \<le> q99_ref st"
  shows "check_q99 f st v (s, rs) =
     (s + spec_q99_penalty st v,
      rs @ (if v / q99_ref st > 1.5
            then [f @ '' ('' @ format_f True 2 v @ '') is '' @
                  format_f False 1 (v / q99_ref st) @ ''x higher than typical values'']
            else []))"
proof (cases "v / q99_ref st > 1.5")
  case True
  with assms have "q99_ref st < v" by (rule ratio_guard)
  moreover from assms have "max (q99_ref st) 1.0 = q99_ref st" by simp
  ultimately show ?thesis
    using True unfolding check_q99_def spec_q99_penalty_def Let_def by simp
next
  case False
  moreover from assms have "max (q99_ref st) 1.0 = q99_ref st" by simp
  ultimately show ?thesis
    unfolding check_q99_def spec_q99_penalty_def Let_def by simp
qed

lemma check_max_spec:
  "check_max f st v (s, rs) =
     (s + spec_max_penalty st v,
      rs @ (if v > max_stat st
            then [f @ '' ('' @ format_f True 2 v @ '') exceeds maximum observed value of '' @
                  format_f True 2 (max_stat st)]
            else []))"
  by (simp add: check_max_def spec_max_penalty_def Let_def)

lemma check_negative_spec:
  "check_negative f v (s, rs) =
     (s + spec_negative_penalty v,
      rs @ (if v < 0 then [f @ '' ('' @ format_f True 2 v @ '') is negative''] else []))"
  by (simp add: check_negative_def spec_negative_penalty_def)

lemma feature_checks_spec:
  assumes "1 \<le> q99_ref st"
  shows "check_negative f v (check_max f st v (check_q99 f st v (s, rs))) =
     (s + spec_field_penalty st v, rs @ spec_field_reasons f st v)"
  by (simp only: check_q99_spec [OF assms] check_max_spec check_negative_spec
      spec_field_penalty_def spec_field_reasons_def append_assoc add.assoc)

text \<open>
  The anomaly detector on the dictionary of a \<^verbatim>\<open>Transaction\<close>, in closed form.
\<close>

lemma check_feature_transaction:
  assumes "transaction_dict t f = Some (PyFloat v)"
    and "feature_stats f = Some st"
    and "1 \<le> q99_ref st"
  shows "check_feature (transaction_dict t) f (s, rs) =
     Inr (s + spec_field_penalty st v, rs @ spec_field_reasons f st v)"
  using assms(1,2) by (simp add: check_feature_def feature_checks_spec [OF assms(3)])

lemma check_features_transaction:
  "check_features (transaction_dict t) numeric_features (s, rs) =
     Inr (s + spec_fields_penalty t, rs @ spec_fields_reasons t)"
  unfolding numeric_features_def check_features.simps
  by (simp add: check_feature_transaction transaction_dict_lookup feature_stats_lookup
      q99_ref_bundled spec_fields_penalty_def spec_fields_reasons_def add.assoc)

lemma check_balance_transaction:
  "check_balance (transaction_dict t) (s, rs) =
     Inr (s + (if balance_mismatch t then 3.0 else 0),
          rs @ (if balance_mismatch t then [balance_reason] else []))"
proof -
  have m: "num_mul_hundredth (num_max_one (NFloat (amount t))) =
      Inr (round_double (round_double 0.01 * max (amount t) 1.0))"
    by (simp add: num_mul_hundredth_def num_max_one_def bind_exn_def max_def)
  show ?thesis
    by (simp add: check_balance_def transaction_dict_lookup balance_mismatch_def m
        bind_exn_def float_result_def Let_def)
qed

lemma is_anomalous_transaction:
  "is_anomalous (transaction_dict t) = Inr (5 < spec_score t, spec_score t, spec_reason t)"
  by (simp add: is_anomalous_def check_features_transaction check_balance_transaction
      spec_score_def spec_reasons_def spec_reason_def)

text \<open>
  The binary exponent is the integer part of the binary logarithm, and the literal 0.01 is
  the double \<open>5764607523034235 / 2 ^ 59\<close>.
\<close>

lemma exponent_of_floor_log: "0 < x \<Longrightarrow> exponent_of x = \<lfloor>log 2 x\<rfloor>"
proof (induction x rule: exponent_of.induct)
  case (1 x)
  show ?case
  proof (cases "x < 1")
    case True
    with 1 have "exponent_of (2 * x) = \<lfloor>log 2 (2 * x)\<rfloor>" by simp
    moreover from 1(3) have "log 2 (2 * x) = 1 + log 2 x" by (simp add: log_mult)
    ultimately show ?thesis
      using True 1(3) by (subst exponent_of.simps) (simp add: add.commute)
  next
    case False
    show ?thesis
    proof (cases "2 \<le> x")
      case True
      with 1 False have "exponent_of (x / 2) = \<lfloor>log 2 (x / 2)\<rfloor>" by simp
      moreover from 1(3) have "log 2 (x / 2) = log 2 x - 1" by (simp add: log_divide)
      ultimately show ?thesis
        using True False 1(3) by (subst exponent_of.simps) simp
    next
      case b: False
      with False 1(3) have "0 \<le> log 2 x" and "log 2 x < 1" by simp_all
      then have "\<lfloor>log 2 x\<rfloor> = 0" by linarith
      with False b 1(3) show ?thesis by (subst exponent_of.simps) simp
    qed
  qed
qed

lemmas double_eval =
  round_double_def exponent_of.simps pow2_def round_half_even_def Let_def

lemma round_double_hundredth: "round_double 0.01 = 5764607523034235 / 576460752303423488"
  by (simp add: double_eval)

text \<open>
  The sample transactions: their fields are doubles, and the balance check and the field
  penalties evaluate as follows.
\<close>

lemma sample_fields_are_doubles:
  "round_double (newbalanceOrig rounding_transaction) = newbalanceOrig rounding_transaction"
  "round_double (newbalanceOrig huge_amount_transaction) = newbalanceOrig huge_amount_transaction"
  by (simp_all add: rounding_transaction_def huge_amount_transaction_def double_eval)

lemma balance_mismatch_eval:
  assumes "round_double (oldbalanceOrg t - newbalanceOrig t) = change"
    and "round_double (change - amount t) = difference"
    and "round_double (5764607523034235 / 576460752303423488 * max (amount t) 1.0) = tolerance"
  shows "balance_mismatch t \<longleftrightarrow>
     overflows change \<or> overflows difference \<or> \<bar>difference\<bar> > tolerance"
  unfolding balance_mismatch_def Let_def round_double_hundredth assms by (rule refl)

lemma rounding_balance_mismatch: "balance_mismatch rounding_transaction"
proof -
  have "round_double (oldbalanceOrg rounding_transaction - newbalanceOrig rounding_transaction) =
      871871424715817 / 1073741824"
    by (simp add: rounding_transaction_def double_eval)
  moreover have "round_double (871871424715817 / 1073741824 - amount rounding_transaction) =
      8632390343721 / 1073741824"
    by (simp add: rounding_transaction_def double_eval)
  moreover have "round_double (5764607523034235 / 576460752303423488 *
      max (amount rounding_transaction) 1.0) = 8839567711970263 / 1099511627776"
    by (simp add: rounding_transaction_def double_eval)
  ultimately have "balance_mismatch rounding_transaction \<longleftrightarrow>
      overflows (871871424715817 / 1073741824) \<or> overflows (8632390343721 / 1073741824) \<or>
      \<bar>8632390343721 / 1073741824\<bar> > (8839567711970263 / 1099511627776 :: real)"
    by (rule balance_mismatch_eval)
  then show ?thesis
    by (simp add: overflows_def)
qed

lemma in_range_balance_mismatch: "\<not> balance_mismatch in_range_transaction"
proof -
  have "round_double (oldbalanceOrg in_range_transaction - newbalanceOrig in_range_transaction) =
      500000"
    by (simp add: in_range_transaction_def double_eval)
  moreover have "round_double (500000 - amount in_range_transaction) = 0"
    by (simp add: in_range_transaction_def double_eval)
  moreover have "round_double (5764607523034235 / 576460752303423488 *
      max (amount in_range_transaction) 1.0) = 5000"
    by (simp add: in_range_transaction_def double_eval)
  ultimately have "balance_mismatch in_range_transaction \<longleftrightarrow>
      overflows 500000 \<or> overflows 0 \<or> \<bar>0\<bar> > (5000 :: real)"
    by (rule balance_mismatch_eval)
  then show ?thesis
    by (simp add: overflows_def)
qed

lemma huge_amount_balance_mismatch: "balance_mismatch huge_amount_transaction"
proof -
  have "round_double (oldbalanceOrg huge_amount_transaction -
      newbalanceOrig huge_amount_transaction) = 78717 / 8"
    by (simp add: huge_amount_transaction_def double_eval)
  moreover have "round_double (78717 / 8 - amount huge_amount_transaction) = - (1599921283 / 8)"
    by (simp add: huge_amount_transaction_def double_eval)
  moreover have "round_double (5764607523034235 / 576460752303423488 *
      max (amount huge_amount_transaction) 1.0) = 2000000"
    by (simp add: huge_amount_transaction_def double_eval)
  ultimately have "balance_mismatch huge_amount_transaction \<longleftrightarrow>
      overflows (78717 / 8) \<or> overflows (- (1599921283 / 8)) \<or>
      \<bar>- (1599921283 / 8)\<bar> > (2000000 :: real)"
    by (rule balance_mismatch_eval)
  then show ?thesis
    by (simp add: overflows_def)
qed

lemma mismatch_balance_mismatch: "balance_mismatch mismatch_transaction"
proof -
  have "round_double (oldbalanceOrg mismatch_transaction - newbalanceOrig mismatch_transaction) =
      100"
    by (simp add: mismatch_transaction_def double_eval)
  moreover have "round_double (100 - amount mismatch_transaction) = 50"
    by (simp add: mismatch_transaction_def double_eval)
  moreover have "round_double (5764607523034235 / 576460752303423488 *
      max (amount mismatch_transaction) 1.0) = 1 / 2"
    by (simp add: mismatch_transaction_def double_eval)
  ultimately have "balance_mismatch mismatch_transaction \<longleftrightarrow>
      overflows 100 \<or> overflows 50 \<or> \<bar>50\<bar> > (1 / 2 :: real)"
    by (rule balance_mismatch_eval)
  then show ?thesis
    by (simp add: overflows_def)
qed

lemmas sample_balance_mismatch =
  in_range_balance_mismatch huge_amount_balance_mismatch mismatch_balance_mismatch
  rounding_balance_mismatch

lemma sample_fields_penalty:
  "spec_fields_penalty in_range_transaction = 0"
  "spec_fields_penalty huge_amount_transaction = 50"
  "spec_fields_penalty mismatch_transaction = 0"
  "spec_fields_penalty rounding_transaction = 0"
  by (simp_all add: spec_fields_penalty_def spec_field_penalty_def spec_q99_penalty_def
      spec_max_penalty_def spec_negative_penalty_def q99_ref_def amount_stats_def
      oldbalanceOrg_stats_def newbalanceOrig_stats_def oldbalanceDest_stats_def
      newbalanceDest_stats_def in_range_transaction_def huge_amount_transaction_def
      mismatch_transaction_def rounding_transaction_def)

lemma sample_fields_reasons:
  "spec_fields_reasons in_range_transaction = []"
  "spec_fields_reasons mismatch_transaction = []"
  "spec_fields_reasons rounding_transaction = []"
  by (simp_all add: spec_fields_reasons_def spec_field_reasons_def q99_ref_def amount_stats_def
      oldbalanceOrg_stats_def newbalanceOrig_stats_def oldbalanceDest_stats_def
      newbalanceDest_stats_def in_range_transaction_def mismatch_transaction_def
      rounding_transaction_def)

text \<open>
  \<^bold>\<open>C1\<close>. For every transaction, the loop over the five numeric fields adds to the
  running score, for each field, exactly the three independent penalties of the
  specification: \<open>min(ratio * 2, 20)\<close> when the ratio of the value to the field's 99th
  percentile exceeds 1.5, \<open>min(|z|, 30)\<close> with \<open>z = (value - mean) / max(std, 1)\<close> when
  the value exceeds the recorded maximum, and 10 when the value is negative. The penalties
  are summands of one sum, so a field can trigger several of them in one call.
\<close>

theorem loop_adds_field_penalties:
  "\<exists>reasons'. check_features (transaction_dict t) numeric_features (score, reasons) =
     Inr (score +
          (spec_field_penalty amount_stats (amount t) +
           spec_field_penalty oldbalanceOrg_stats (oldbalanceOrg t) +
           spec_field_penalty newbalanceOrig_stats (newbalanceOrig t) +
           spec_field_penalty oldbalanceDest_stats (oldbalanceDest t) +
           spec_field_penalty newbalanceDest_stats (newbalanceDest t)), reasons')"
  by (simp add: check_features_transaction spec_fields_penalty_def)

lemmas bundled_stats_defs =
  amount_stats_def oldbalanceOrg_stats_def newbalanceOrig_stats_def
  oldbalanceDest_stats_def newbalanceDest_stats_def

lemmas spec_penalty_defs =
  spec_field_penalty_def spec_q99_penalty_def spec_max_penalty_def spec_negative_penalty_def

text \<open>
  An amount of 200,000,000 triggers both the percentile penalty (capped at 20) and the
  maximum penalty (capped at 30) in the same call.
\<close>

theorem loop_adds_field_penalties_witness:
  "\<exists>reasons'.
     check_features (transaction_dict huge_amount_transaction) numeric_features (0, []) =
       Inr (50, reasons')"
  using loop_adds_field_penalties [of huge_amount_transaction 0 "[]"]
  by (simp add: huge_amount_transaction_def spec_penalty_defs q99_ref_def bundled_stats_defs)




lemma within_no_penalty:
  assumes "within_q75_q99 st v" and "0 \<le> q75 st" and "0 < q99_ref st"
    and "q99_ref st \<le> max_stat st"
  shows "spec_field_penalty st v = 0" and "spec_field_reasons f st v = []"
proof -
  from assms have v: "0 \<le> v" "v \<le> q99_ref st" "v \<le> max_stat st"
    by (simp_all add: within_q75_q99_def)
  from v(2) assms(3) have "v / q99_ref st \<le> 1" by (simp add: pos_divide_le_eq)
  then have r: "\<not> 1.5 < v / q99_ref st" by linarith
  from r v show "spec_field_penalty st v = 0"
    by (simp add: spec_penalty_defs Let_def)
  from r v show "spec_field_reasons f st v = []"
    by (simp add: spec_field_reasons_def)
qed

lemma bundled_stats_ordered:
  "0 \<le> q75 amount_stats \<and> 0 < q99_ref amount_stats \<and> q99_ref amount_stats \<le> max_stat amount_stats"
  "0 \<le> q75 oldbalanceOrg_stats \<and> 0 < q99_ref oldbalanceOrg_stats \<and>
     q99_ref oldbalanceOrg_stats \<le> max_stat oldbalanceOrg_stats"
  "0 \<le> q75 newbalanceOrig_stats \<and> 0 < q99_ref newbalanceOrig_stats \<and>
     q99_ref newbalanceOrig_stats \<le> max_stat newbalanceOrig_stats"
  "0 \<le> q75 oldbalanceDest_stats \<and> 0 < q99_ref oldbalanceDest_stats \<and>
     q99_ref oldbalanceDest_stats \<le> max_stat oldbalanceDest_stats"
  "0 \<le> q75 newbalanceDest_stats \<and> 0 < q99_ref newbalanceDest_stats \<and>
     q99_ref newbalanceDest_stats \<le> max_stat newbalanceDest_stats"
  by (simp_all add: q99_ref_bundled) (simp_all add: bundled_stats_defs)

text \<open>
  \<^bold>\<open>C4\<close>. A transaction whose five numeric fields all lie between the 75th and the
  99th percentile, and whose balance change matches the amount within the tolerance in
  exact arithmetic, can have a score other than 0: with amount 803954.0, old balance
  1081554.0 and new balance 269560.46 the check fires in double precision, and the score
  is 3.
\<close>

theorem in_range_exactly_consistent_scores_3:
  "within_q75_q99 amount_stats (amount rounding_transaction) \<and>
   within_q75_q99 oldbalanceOrg_stats (oldbalanceOrg rounding_transaction) \<and>
   within_q75_q99 newbalanceOrig_stats (newbalanceOrig rounding_transaction) \<and>
   within_q75_q99 oldbalanceDest_stats (oldbalanceDest rounding_transaction) \<and>
   within_q75_q99 newbalanceDest_stats (newbalanceDest rounding_transaction) \<and>
   \<bar>(oldbalanceOrg rounding_transaction - newbalanceOrig rounding_transaction) -
      amount rounding_transaction\<bar> \<le> 0.01 * max (amount rounding_transaction) 1.0 \<and>
   is_anomalous (transaction_dict rounding_transaction) = Inr (False, 3, balance_reason)"
proof -
  have "within_q75_q99 amount_stats (amount rounding_transaction)"
    and "within_q75_q99 oldbalanceOrg_stats (oldbalanceOrg rounding_transaction)"
    and "within_q75_q99 newbalanceOrig_stats (newbalanceOrig rounding_transaction)"
    and "within_q75_q99 oldbalanceDest_stats (oldbalanceDest rounding_transaction)"
    and "within_q75_q99 newbalanceDest_stats (newbalanceDest rounding_transaction)"
    by (simp_all add: within_q75_q99_def q99_ref_def rounding_transaction_def amount_stats_def
        oldbalanceOrg_stats_def newbalanceOrig_stats_def oldbalanceDest_stats_def
        newbalanceDest_stats_def)
  moreover have "\<bar>(oldbalanceOrg rounding_transaction - newbalanceOrig rounding_transaction) -
      amount rounding_transaction\<bar> \<le> 0.01 * max (amount rounding_transaction) 1.0"
    by (simp add: rounding_transaction_def)
  moreover have "is_anomalous (transaction_dict rounding_transaction) =
      Inr (False, 3, balance_reason)"
    by (simp add: is_anomalous_transaction spec_score_def spec_reason_def spec_reasons_def
        sample_fields_penalty sample_fields_reasons sample_balance_mismatch)
  ultimately show ?thesis by blast
qed

text \<open>
  \<^bold>\<open>C4\<close>, as the code has it. A transaction whose five numeric fields all lie between
  the 75th and the 99th percentile of the reference statistics, and whose balance change
  matches the amount within the tolerance when the formula of the check is evaluated in
  double precision, has anomaly score 0 and is not anomalous.
\<close>

theorem in_range_consistent_not_anomalous:
  assumes "within_q75_q99 amount_stats (amount t)"
    and "within_q75_q99 oldbalanceOrg_stats (oldbalanceOrg t)"
    and "within_q75_q99 newbalanceOrig_stats (newbalanceOrig t)"
    and "within_q75_q99 oldbalanceDest_stats (oldbalanceDest t)"
    and "within_q75_q99 newbalanceDest_stats (newbalanceDest t)"
    and "\<not> balance_mismatch t"
  shows "\<exists>reason. is_anomalous (transaction_dict t) = Inr (False, 0, reason)"
proof -
  have "spec_fields_penalty t = 0"
    unfolding spec_fields_penalty_def
    using within_no_penalty(1) [OF assms(1)] within_no_penalty(1) [OF assms(2)]
      within_no_penalty(1) [OF assms(3)] within_no_penalty(1) [OF assms(4)]
      within_no_penalty(1) [OF assms(5)] bundled_stats_ordered
    by simp
  then have "spec_score t = 0" using assms(6) by (simp add: spec_score_def)
  then show ?thesis by (simp add: is_anomalous_transaction)
qed

theorem in_range_consistent_not_anomalous_witness:
  "\<exists>reason. is_anomalous (transaction_dict in_range_transaction) = Inr (False, 0, reason)"
proof (rule in_range_consistent_not_anomalous)
  show "within_q75_q99 amount_stats (amount in_range_transaction)"
    by (simp add: within_q75_q99_def in_range_transaction_def q99_ref_bundled) (simp add: amount_stats_def)
  show "within_q75_q99 oldbalanceOrg_stats (oldbalanceOrg in_range_transaction)"
    by (simp add: within_q75_q99_def in_range_transaction_def q99_ref_bundled)
       (simp add: oldbalanceOrg_stats_def)
  show "within_q75_q99 newbalanceOrig_stats (newbalanceOrig in_range_transaction)"
    by (simp add: within_q75_q99_def in_range_transaction_def q99_ref_bundled)
       (simp add: newbalanceOrig_stats_def)
  show "within_q75_q99 oldbalanceDest_stats (oldbalanceDest in_range_transaction)"
    by (simp add: within_q75_q99_def in_range_transaction_def q99_ref_bundled)
       (simp add: oldbalanceDest_stats_def)
  show "within_q75_q99 newbalanceDest_stats (newbalanceDest in_range_transaction)"
    by (simp add: within_q75_q99_def in_range_transaction_def q99_ref_bundled)
       (simp add: newbalanceDest_stats_def)
  show "\<not> balance_mismatch in_range_transaction"
    by (rule in_range_balance_mismatch)
qed

text \<open>
  \<^verbatim>\<open>predict\<close> on a \<^verbatim>\<open>Transaction\<close> never reaches the handler of the outer
  \<^verbatim>\<open>try\<close>; on an object without a \<^verbatim>\<open>dict\<close> method it always does.
\<close>

lemma preprocess_transaction_dict:
  "preprocess_transaction (transaction_dict t) = Inr (spec_encode t)"
  by (simp add: preprocess_transaction_def getitem_def bind_exn_def transaction_dict_lookup
      spec_encode_def)

lemma predict_body_transaction:
  "predict_body self (TransactionObj t) =
     Inr (case (model self, scaler self) of
            (Some m, Some sc) \<Rightarrow>
              scored_prediction (raw_probability m sc (spec_encode t))
                (5 < spec_score t) (spec_score t) (spec_reason t)
          | _ \<Rightarrow> default_prediction (5 < spec_score t) (spec_reason t))"
  by (simp add: predict_body_def bind_exn_def is_anomalous_transaction
      preprocess_transaction_dict split: option.splits)

lemma predict_body_other:
  "predict_body self (OtherObj ty) =
     Inl (AttributeError (quoted ty @ '' object has no attribute '' @ quoted ''dict''))"
  by (simp add: predict_body_def bind_exn_def)

lemma predict_scored:
  assumes "model self = Some m" and "scaler self = Some sc"
  shows "predict self (TransactionObj t) =
     scored_prediction (raw_probability m sc (spec_encode t))
       (5 < spec_score t) (spec_score t) (spec_reason t)"
  using assms by (simp add: predict_def predict_body_transaction)

lemma predict_unavailable:
  assumes "model self = None \<or> scaler self = None"
  shows "predict self (TransactionObj t) = default_prediction (5 < spec_score t) (spec_reason t)"
  using assms by (auto simp add: predict_def predict_body_transaction split: option.splits)

lemma predict_other:
  "predict self (OtherObj ty) =
     last_resort (AttributeError (quoted ty @ '' object has no attribute '' @ quoted ''dict''))"
  by (simp add: predict_def predict_body_other)

lemma scored_prediction_fields:
  "fraud_probability (scored_prediction p a s r) = p"
  "is_fraud (scored_prediction p a s r) = (0.5 < p)"
  "confidence_score (scored_prediction p a s r) = spec_confidence p a s"
  "is_anomalous_field (scored_prediction p a s r) = a"
  "anomaly_reason (scored_prediction p a s r) = (if a then r else [])"
  by (simp_all add: scored_prediction_def spec_confidence_def base_confidence_def Let_def)

lemma raw_probability_cases:
  "raw_probability m sc fs =
     (case sc fs of Inl e \<Rightarrow> 0.1
      | Inr scaled_data \<Rightarrow> (case m scaled_data of Inl e \<Rightarrow> 0.1 | Inr proba \<Rightarrow> proba))"
  by (simp add: raw_probability_def)

text \<open>
  \<^bold>\<open>C3\<close>. When the model and the scaler are loaded, \<^verbatim>\<open>predict\<close> on a transaction
  runs the anomaly detector and the encoder without an exception, and the confidence
  score is the adjusted confidence of the specification at the raw probability, which is
  the probability of the classifier on the normal path and 0.1 when scaling or scoring
  raises: \<open>|p - 0.5| * 2\<close> when the transaction is not anomalous, and
  \<open>max(0.1, |p - 0.5| * 2 * (1 - min(score / 50, 0.9)))\<close> when it is.
\<close>

theorem confidence_adjustment:
  assumes "model self = Some m" and "scaler self = Some sc"
  shows "\<exists>a s r processed_data.
     is_anomalous (transaction_dict t) = Inr (a, s, r) \<and>
     preprocess_transaction (transaction_dict t) = Inr processed_data \<and>
     is_anomalous_field (predict self (TransactionObj t)) = a \<and>
     confidence_score (predict self (TransactionObj t)) =
       spec_confidence
         (case sc processed_data of
            Inl e \<Rightarrow> 0.1
          | Inr scaled_data \<Rightarrow> (case m scaled_data of Inl e \<Rightarrow> 0.1 | Inr proba \<Rightarrow> proba))
         a s"
  by (simp add: is_anomalous_transaction preprocess_transaction_dict predict_scored [OF assms]
      scored_prediction_fields raw_probability_cases)

lemma spec_score_huge_amount: "spec_score huge_amount_transaction = 53"
  by (simp add: spec_score_def sample_fields_penalty sample_balance_mismatch)

lemma spec_score_in_range: "spec_score in_range_transaction = 0"
  by (simp add: spec_score_def sample_fields_penalty sample_balance_mismatch)

theorem confidence_adjustment_witness:
  "is_anomalous_field (predict (stub_service 1) (TransactionObj huge_amount_transaction)) \<and>
   confidence_score (predict (stub_service 1) (TransactionObj huge_amount_transaction)) = 0.1 \<and>
   confidence_score
     (predict \<lparr>model = Some unfitted_model, scaler = Some stub_scaler\<rparr>
        (TransactionObj in_range_transaction)) = 0.8"
proof -
  have 1: "model (stub_service 1) = Some (stub_model 1)"
    and 2: "scaler (stub_service 1) = Some stub_scaler"
    by (simp_all add: stub_service_def)
  have 3: "model \<lparr>model = Some unfitted_model, scaler = Some stub_scaler\<rparr> = Some unfitted_model"
    and 4: "scaler \<lparr>model = Some unfitted_model, scaler = Some stub_scaler\<rparr> = Some stub_scaler"
    by simp_all
  show ?thesis
    using confidence_adjustment [OF 1 2, of huge_amount_transaction] confidence_adjustment [OF 3 4, of in_range_transaction]
    by (simp add: is_anomalous_transaction spec_score_huge_amount spec_score_in_range
        stub_scaler_def stub_model_def unfitted_model_def spec_confidence_def)
qed

lemma spec_confidence_bounds:
  assumes "0 \<le> p" and "p \<le> 1" and "a \<longrightarrow> 5 < s"
  shows "(a \<longrightarrow> 0.1 \<le> spec_confidence p a s \<and> spec_confidence p a s \<le> 1) \<and>
         (\<not> a \<longrightarrow> 0 \<le> spec_confidence p a s \<and> spec_confidence p a s \<le> 1)"
proof -
  define b where "b = \<bar>p - 0.5\<bar> * 2"
  from assms(1,2) have b: "0 \<le> b" "b \<le> 1" by (simp_all add: b_def abs_if)
  show ?thesis
  proof (cases a)
    case False
    with b show ?thesis by (simp add: spec_confidence_def b_def)
  next
    case True
    with assms(3) have "5 < s" by simp
    define f where "f = 1 - min (s / 50.0) 0.9"
    from \<open>5 < s\<close> have f: "0 \<le> f" "f \<le> 1" by (simp_all add: f_def min_def)
    from b f have "b * f \<le> 1 * 1" by (intro mult_mono) simp_all
    then have "max 0.1 (b * f) \<le> 1" by simp
    moreover have "0.1 \<le> max 0.1 (b * f)" by simp
    ultimately show ?thesis
      using True by (simp add: spec_confidence_def b_def f_def)
  qed
qed

lemma raw_probability_bounds:
  assumes "\<forall>xs p. m xs = Inr p \<longrightarrow> 0 \<le> p \<and> p \<le> 1"
  shows "0 \<le> raw_probability m sc fs \<and> raw_probability m sc fs \<le> 1"
  using assms by (auto simp add: raw_probability_def split: sum.splits)

lemma default_prediction_fields:
  "fraud_probability (default_prediction a r) = 0.1"
  "is_fraud (default_prediction a r) = False"
  "confidence_score (default_prediction a r) = 0.8"
  "is_anomalous_field (default_prediction a r) = a"
  "anomaly_reason (default_prediction a r) = (if a then r else [])"
  by (simp_all add: default_prediction_def)

lemma last_resort_fields:
  "fraud_probability (last_resort e) = 0.1"
  "is_fraud (last_resort e) = False"
  "confidence_score (last_resort e) = 0.8"
  "is_anomalous_field (last_resort e) = False"
  "anomaly_reason (last_resort e) = ''Error during prediction: '' @ str_exn e"
  by (simp_all add: last_resort_def)

lemma predict_cases:
  obtains (other) ty where "obj = OtherObj ty"
      and "predict self obj =
        last_resort (AttributeError (quoted ty @ '' object has no attribute '' @ quoted ''dict''))"
      and "predict_body self obj =
        Inl (AttributeError (quoted ty @ '' object has no attribute '' @ quoted ''dict''))"
  | (unavailable) t where "obj = TransactionObj t" and "model self = None \<or> scaler self = None"
      and "predict self obj = default_prediction (5 < spec_score t) (spec_reason t)"
      and "predict_body self obj = Inr (default_prediction (5 < spec_score t) (spec_reason t))"
  | (scored) t m sc where "obj = TransactionObj t" and "model self = Some m"
      and "scaler self = Some sc"
      and "predict self obj =
        scored_prediction (raw_probability m sc (spec_encode t))
          (5 < spec_score t) (spec_score t) (spec_reason t)"
      and "predict_body self obj =
        Inr (scored_prediction (raw_probability m sc (spec_encode t))
          (5 < spec_score t) (spec_score t) (spec_reason t))"
proof (cases obj)
  case (OtherObj ty)
  then show ?thesis using other by (simp add: predict_other predict_body_other)
next
  case (TransactionObj t)
  show ?thesis
  proof (cases "model self = None \<or> scaler self = None")
    case True
    with TransactionObj show ?thesis
      using unavailable [of t] predict_unavailable [of self t]
      by (auto simp add: predict_body_transaction split: option.splits)
  next
    case False
    then obtain m sc where "model self = Some m" and "scaler self = Some sc" by auto
    with TransactionObj show ?thesis
      using scored [of t m sc] by (simp add: predict_scored predict_body_transaction)
  qed
qed

text \<open>
  \<^bold>\<open>C5\<close>. If every probability the classifier returns lies in \<open>[0, 1]\<close>, the
  confidence score of the result of \<^verbatim>\<open>predict\<close> lies in \<open>[0.1, 1]\<close> when the result
  is anomalous and in \<open>[0, 1]\<close> otherwise, for every argument; it is 0.8 when the model or
  the scaler is \<^verbatim>\<open>None\<close>, and 0.8 when the body of the outer \<^verbatim>\<open>try\<close> raises.
\<close>

theorem confidence_score_bounds:
  assumes "\<forall>m xs p. model self = Some m \<longrightarrow> m xs = Inr p \<longrightarrow> 0 \<le> p \<and> p \<le> 1"
  shows "(is_anomalous_field (predict self obj) \<longrightarrow>
            0.1 \<le> confidence_score (predict self obj) \<and>
            confidence_score (predict self obj) \<le> 1.0) \<and>
         (\<not> is_anomalous_field (predict self obj) \<longrightarrow>
            0 \<le> confidence_score (predict self obj) \<and>
            confidence_score (predict self obj) \<le> 1.0) \<and>
         (model self = None \<or> scaler self = None \<longrightarrow>
            confidence_score (predict self obj) = 0.8) \<and>
         ((\<exists>e. predict_body self obj = Inl e) \<longrightarrow>
            confidence_score (predict self obj) = 0.8)"
proof (cases rule: predict_cases [of obj self])
  case (other ty)
  then show ?thesis by (simp add: last_resort_fields)
next
  case (unavailable t)
  then show ?thesis by (simp add: default_prediction_fields)
next
  case (scored t m sc)
  from assms scored(2) have "\<forall>xs p. m xs = Inr p \<longrightarrow> 0 \<le> p \<and> p \<le> 1" by blast
  then have "0 \<le> raw_probability m sc (spec_encode t)"
    and "raw_probability m sc (spec_encode t) \<le> 1"
    using raw_probability_bounds [of m sc "spec_encode t"] by simp_all
  then show ?thesis
    using spec_confidence_bounds [of "raw_probability m sc (spec_encode t)"
        "5 < spec_score t" "spec_score t"] scored
    by (simp add: scored_prediction_fields)
qed

theorem confidence_score_bounds_witness:
  "is_anomalous_field (predict (stub_service 1) (TransactionObj huge_amount_transaction)) \<and>
   0.1 \<le> confidence_score (predict (stub_service 1) (TransactionObj huge_amount_transaction)) \<and>
   confidence_score (predict (stub_service 1) (TransactionObj huge_amount_transaction)) \<le> 1.0"
proof -
  have "\<forall>m xs p. model (stub_service 1) = Some m \<longrightarrow> m xs = Inr p \<longrightarrow> 0 \<le> p \<and> p \<le> 1"
    by (simp add: stub_service_def stub_model_def)
  moreover have "predict (stub_service 1) (TransactionObj huge_amount_transaction) =
      scored_prediction (raw_probability (stub_model 1) stub_scaler (spec_encode huge_amount_transaction))
        (5 < spec_score huge_amount_transaction) (spec_score huge_amount_transaction) (spec_reason huge_amount_transaction)"
    by (rule predict_scored) (simp_all add: stub_service_def)
  ultimately show ?thesis
    using confidence_score_bounds [of "stub_service 1" "TransactionObj huge_amount_transaction"]
    by (simp add: scored_prediction_fields spec_score_huge_amount)
qed

text \<open>
  \<^bold>\<open>C6\<close>. \<^verbatim>\<open>predict\<close> always returns a result: the result of the body of its
  outer \<^verbatim>\<open>try\<close>, or, when the body raises \<open>e\<close>, the last-resort result with
  probability 0.1, not fraud, confidence 0.8, not anomalous, and the reason
  \<^verbatim>\<open>Error during prediction: \<close> followed by \<^verbatim>\<open>str(e)\<close>. For a \<^verbatim>\<open>Transaction\<close> the
  body never raises, whatever the scaler and the classifier do. Exceptions are the
  subclasses of \<^verbatim>\<open>Exception\<close>; the handler itself is taken not to raise.
\<close>

theorem predict_never_raises:
  "((\<exists>result. predict_body self obj = Inr result \<and> predict self obj = result) \<or>
    (\<exists>e. predict_body self obj = Inl e \<and>
       predict self obj =
         \<lparr>fraud_probability = 0.1, is_fraud = False, confidence_score = 0.8,
          is_anomalous_field = False,
          anomaly_reason = ''Error during prediction: '' @ str_exn e\<rparr>)) \<and>
   (\<exists>result. predict_body self (TransactionObj t) = Inr result)"
proof -
  have "\<exists>result. predict_body self (TransactionObj t) = Inr result"
    by (simp add: predict_body_transaction)
  moreover have "(\<exists>result. predict_body self obj = Inr result \<and> predict self obj = result) \<or>
    (\<exists>e. predict_body self obj = Inl e \<and>
       predict self obj =
         \<lparr>fraud_probability = 0.1, is_fraud = False, confidence_score = 0.8,
          is_anomalous_field = False,
          anomaly_reason = ''Error during prediction: '' @ str_exn e\<rparr>)"
    by (cases "predict_body self obj") (simp_all add: predict_def last_resort_def)
  ultimately show ?thesis by blast
qed

theorem predict_never_raises_witness:
  "predict_body unloaded_service (OtherObj ''dict'') =
     Inl (AttributeError (quoted ''dict'' @ '' object has no attribute '' @ quoted ''dict'')) \<and>
   predict unloaded_service (OtherObj ''dict'') =
     \<lparr>fraud_probability = 0.1, is_fraud = False, confidence_score = 0.8,
      is_anomalous_field = False,
      anomaly_reason = ''Error during prediction: '' @ quoted ''dict'' @
        '' object has no attribute '' @ quoted ''dict''\<rparr>"
  using predict_never_raises [of unloaded_service "OtherObj ''dict''" in_range_transaction]
  by (simp add: predict_body_other)

lemma native_id: "native result = result"
  by (simp add: native_def)

lemma batch_loop_map:
  "batch_loop self transactions results = results @ map (predict self) transactions"
  by (induction transactions arbitrary: results) (simp_all add: native_id)

text \<open>
  \<^bold>\<open>C7\<close>. On a list of transactions \<^verbatim>\<open>batch_predict\<close> returns a list of the same
  length whose \<open>i\<close>-th element is \<^verbatim>\<open>predict\<close> of the \<open>i\<close>-th transaction, whatever
  happens inside each item's prediction; it raises only when the iteration itself fails,
  that is, when its argument is not iterable.
\<close>

theorem batch_predict_is_map_predict:
  "(\<exists>results. batch_predict self (PyList transactions) = Inr results \<and>
      length results = length transactions \<and>
      (\<forall>i < length transactions. results ! i = predict self (transactions ! i))) \<and>
   ((\<exists>e. batch_predict self arg = Inl e) \<longleftrightarrow> (\<exists>ty. arg = NotIterable ty))"
proof -
  have "batch_predict self (PyList transactions) = Inr (map (predict self) transactions)"
    by (simp add: batch_loop_map)
  then have "\<exists>results. batch_predict self (PyList transactions) = Inr results \<and>
      length results = length transactions \<and>
      (\<forall>i < length transactions. results ! i = predict self (transactions ! i))"
    by simp
  moreover have "(\<exists>e. batch_predict self arg = Inl e) \<longleftrightarrow> (\<exists>ty. arg = NotIterable ty)"
    by (cases arg) simp_all
  ultimately show ?thesis by blast
qed

text \<open>
  A batch whose first item makes the body of \<^verbatim>\<open>predict\<close> raise still yields both
  results, in order.
\<close>

theorem batch_predict_is_map_predict_witness:
  "batch_predict unloaded_service (PyList [OtherObj ''dict'', TransactionObj in_range_transaction]) =
     Inr [predict unloaded_service (OtherObj ''dict''),
          predict unloaded_service (TransactionObj in_range_transaction)]"
proof -
  from batch_predict_is_map_predict [of unloaded_service "[OtherObj ''dict'', TransactionObj in_range_transaction]"
      "PyList []"]
  obtain results where r:
    "batch_predict unloaded_service (PyList [OtherObj ''dict'', TransactionObj in_range_transaction]) =
       Inr results"
    "length results = 2"
    "\<forall>i < 2. results ! i =
       predict unloaded_service ([OtherObj ''dict'', TransactionObj in_range_transaction] ! i)"
    by auto
  from r(3) have "results ! 0 = predict unloaded_service (OtherObj ''dict'')"
    and "results ! 1 = predict unloaded_service (TransactionObj in_range_transaction)"
    by simp_all
  with r(2) have "results = [predict unloaded_service (OtherObj ''dict''),
      predict unloaded_service (TransactionObj in_range_transaction)]"
    by (simp add: list_eq_iff_nth_eq less_Suc_eq numeral_2_eq_2)
  with r(1) show ?thesis by simp
qed

text \<open>
  \<^bold>\<open>C8\<close>. The reason is not always empty when the result is not anomalous: on a plain
  dictionary \<^verbatim>\<open>predict\<close> ends in the handler of its outer \<^verbatim>\<open>try\<close>, which returns
  a result that is not anomalous and whose reason describes the error.
\<close>

theorem reason_nonempty_on_last_resort:
  "\<not> is_anomalous_field (predict unloaded_service (OtherObj ''dict'')) \<and>
   anomaly_reason (predict unloaded_service (OtherObj ''dict'')) =
     ''Error during prediction: '' @ quoted ''dict'' @ '' object has no attribute '' @
       quoted ''dict'' \<and>
   anomaly_reason (predict unloaded_service (OtherObj ''dict'')) \<noteq> []"
  by (simp add: predict_other last_resort_fields)

text \<open>
  \<^bold>\<open>C8\<close>, as the code has it. The reason is empty whenever the result is not anomalous, for every
  result that the body of the outer \<^verbatim>\<open>try\<close> returns, and so for every
  \<^verbatim>\<open>Transaction\<close>; when the body raises \<open>e\<close>, the result is not anomalous and its
  reason is \<^verbatim>\<open>Error during prediction: \<close> followed by \<^verbatim>\<open>str(e)\<close>.
\<close>

theorem reason_empty_unless_last_resort:
  "(\<not> is_anomalous_field (predict self (TransactionObj t)) \<longrightarrow>
      anomaly_reason (predict self (TransactionObj t)) = []) \<and>
   (\<forall>result. predict_body self obj = Inr result \<longrightarrow>
      predict self obj = result \<and>
      (\<not> is_anomalous_field result \<longrightarrow> anomaly_reason result = [])) \<and>
   (\<forall>e. predict_body self obj = Inl e \<longrightarrow>
      \<not> is_anomalous_field (predict self obj) \<and>
      anomaly_reason (predict self obj) = ''Error during prediction: '' @ str_exn e)"
proof -
  have 1: "\<not> is_anomalous_field (predict self (TransactionObj t)) \<longrightarrow>
      anomaly_reason (predict self (TransactionObj t)) = []"
    by (cases rule: predict_cases [of "TransactionObj t" self])
      (simp_all add: default_prediction_fields scored_prediction_fields)
  have 2: "\<forall>result. predict_body self obj = Inr result \<longrightarrow>
      predict self obj = result \<and>
      (\<not> is_anomalous_field result \<longrightarrow> anomaly_reason result = [])"
    by (cases rule: predict_cases [of obj self])
      (simp_all add: default_prediction_fields scored_prediction_fields)
  have 3: "\<forall>e. predict_body self obj = Inl e \<longrightarrow>
      \<not> is_anomalous_field (predict self obj) \<and>
      anomaly_reason (predict self obj) = ''Error during prediction: '' @ str_exn e"
    by (simp add: predict_def last_resort_fields)
  from 1 2 3 show ?thesis by blast
qed

theorem reason_empty_unless_last_resort_witness:
  "\<not> is_anomalous_field (predict (stub_service 1) (TransactionObj in_range_transaction)) \<and>
   anomaly_reason (predict (stub_service 1) (TransactionObj in_range_transaction)) = []"
proof -
  have "predict (stub_service 1) (TransactionObj in_range_transaction) =
      scored_prediction (raw_probability (stub_model 1) stub_scaler (spec_encode in_range_transaction))
        (5 < spec_score in_range_transaction) (spec_score in_range_transaction) (spec_reason in_range_transaction)"
    by (rule predict_scored) (simp_all add: stub_service_def)
  then have "\<not> is_anomalous_field (predict (stub_service 1) (TransactionObj in_range_transaction))"
    by (simp add: scored_prediction_fields spec_score_in_range)
  with reason_empty_unless_last_resort [of "stub_service 1" in_range_transaction "TransactionObj in_range_transaction"]
  show ?thesis by simp
qed

text \<open>
  \<^bold>\<open>C9\<close>. On the normal path, where the scaler and the classifier return, the fraud
  probability of the result is the probability of the classifier, and the result is
  fraud if and only if this probability is strictly greater than 0.5; at exactly 0.5 the
  result is not fraud and the base confidence is 0.
\<close>

theorem is_fraud_strict_threshold:
  assumes "model self = Some m" and "scaler self = Some sc"
    and "preprocess_transaction (transaction_dict t) = Inr processed_data"
    and "sc processed_data = Inr scaled_data"
    and "m scaled_data = Inr proba"
  shows "fraud_probability (predict self (TransactionObj t)) = proba \<and>
         (is_fraud (predict self (TransactionObj t)) \<longleftrightarrow> proba > 0.5) \<and>
         (proba = 0.5 \<longrightarrow>
            \<not> is_fraud (predict self (TransactionObj t)) \<and> base_confidence proba = 0)"
proof -
  from assms(3) have "processed_data = spec_encode t"
    by (simp add: preprocess_transaction_dict)
  with assms(4,5) have "raw_probability m sc (spec_encode t) = proba"
    by (simp add: raw_probability_def)
  then show ?thesis
    by (simp add: predict_scored [OF assms(1,2)] scored_prediction_fields base_confidence_def)
qed

theorem is_fraud_strict_threshold_witness:
  "fraud_probability (predict (stub_service 0.5) (TransactionObj in_range_transaction)) = 0.5 \<and>
   \<not> is_fraud (predict (stub_service 0.5) (TransactionObj in_range_transaction)) \<and>
   base_confidence 0.5 = 0 \<and>
   confidence_score (predict (stub_service 0.5) (TransactionObj in_range_transaction)) = 0"
proof -
  have 1: "model (stub_service 0.5) = Some (stub_model 0.5)"
    and 2: "scaler (stub_service 0.5) = Some stub_scaler"
    by (simp_all add: stub_service_def)
  have 3: "preprocess_transaction (transaction_dict in_range_transaction) = Inr (spec_encode in_range_transaction)"
    by (rule preprocess_transaction_dict)
  have 4: "stub_scaler (spec_encode in_range_transaction) = Inr []"
    by (simp add: stub_scaler_def)
  have 5: "stub_model 0.5 [] = Inr 0.5"
    by (simp add: stub_model_def)
  have "predict (stub_service 0.5) (TransactionObj in_range_transaction) =
      scored_prediction (raw_probability (stub_model 0.5) stub_scaler (spec_encode in_range_transaction))
        (5 < spec_score in_range_transaction) (spec_score in_range_transaction) (spec_reason in_range_transaction)"
    by (rule predict_scored [OF 1 2])
  moreover have "raw_probability (stub_model 0.5) stub_scaler (spec_encode in_range_transaction) = 0.5"
    by (simp add: raw_probability_def stub_scaler_def stub_model_def)
  ultimately have "confidence_score (predict (stub_service 0.5) (TransactionObj in_range_transaction)) = 0"
    by (simp add: scored_prediction_fields spec_confidence_def spec_score_in_range)
  with is_fraud_strict_threshold [OF 1 2 3 4 5] show ?thesis by simp
qed




end
